theory Spec2Isabelle
  imports Main
begin

section \<open>Python strings\<close>

text \<open>
  A \<open>str\<close> is a \<open>string\<close>, one \<open>char\<close> for each character up to U+00FF. The
  whitespace and line-break characters below are those of that range that \<open>str.strip\<close>,
  \<open>str.splitlines\<close> and the whitespace class of \<open>re\<close> recognise; they include the next-line
  character U+0085 and the no-break space U+00A0.
\<close>

definition NL :: char where
  "NL = CHR 0x0A"

text \<open>\<open>s.startswith(p)\<close> and \<open>s.endswith(p)\<close>.\<close>

definition startswith :: "string \<Rightarrow> string \<Rightarrow> bool" where
  "startswith s p = (take (length p) s = p)"

definition endswith :: "string \<Rightarrow> string \<Rightarrow> bool" where
  "endswith s p = (length p \<le> length s \<and> drop (length s - length p) s = p)"

definition is_space :: "char \<Rightarrow> bool" where
  "is_space c = (c \<in> set [CHR 0x09, CHR 0x0A, CHR 0x0B, CHR 0x0C, CHR 0x0D,
                           CHR 0x1C, CHR 0x1D, CHR 0x1E, CHR 0x1F, CHR 0x20,
                           CHR 0x85, CHR 0xA0])"

text \<open>\<open>s.lstrip()\<close>, \<open>s.rstrip()\<close>, \<open>s.strip()\<close>.\<close>

definition lstrip :: "string \<Rightarrow> string" where
  "lstrip s = dropWhile is_space s"

definition rstrip :: "string \<Rightarrow> string" where
  "rstrip s = rev (dropWhile is_space (rev s))"

definition strip :: "string \<Rightarrow> string" where
  "strip s = lstrip (rstrip s)"

text \<open>
  \<open>s.lstrip(chars)\<close>: the argument is a set of characters, all leading occurrences of
  which are removed; it is not a prefix.
\<close>

definition lstrip_chars :: "string \<Rightarrow> string \<Rightarrow> string" where
  "lstrip_chars s chars = dropWhile (\<lambda>c. c \<in> set chars) s"

text \<open>\<open>s.partition(sep)\<close> for a separator of one character.\<close>

definition partition_at :: "string \<Rightarrow> char \<Rightarrow> string \<times> string \<times> string" where
  "partition_at s sep =
     (if sep \<in> set s
      then (takeWhile (\<lambda>c. c \<noteq> sep) s, [sep], tl (dropWhile (\<lambda>c. c \<noteq> sep) s))
      else (s, [], []))"

text \<open>\<open>s.find(sub)\<close>: the least index where \<open>sub\<close> occurs, or \<open>-1\<close>.\<close>

fun find_from :: "nat \<Rightarrow> string \<Rightarrow> string \<Rightarrow> int" where
  "find_from i [] sub = (if sub = [] then int i else - 1)"
| "find_from i (c # cs) sub =
     (if startswith (c # cs) sub then int i else find_from (Suc i) cs sub)"

definition find_str :: "string \<Rightarrow> string \<Rightarrow> int" where
  "find_str s sub = find_from 0 s sub"

text \<open>
  \<open>s.splitlines()\<close>: the text is cut at every line boundary, a carriage return followed
  by a newline counts as one, and a boundary at the very end adds no empty line.
\<close>

definition is_linebreak :: "char \<Rightarrow> bool" where
  "is_linebreak c =
     (c \<in> set [CHR 0x0A, CHR 0x0B, CHR 0x0C, CHR 0x0D, CHR 0x1C, CHR 0x1D, CHR 0x1E, CHR 0x85])"

fun splitlines_from :: "string \<Rightarrow> string \<Rightarrow> string list" where
  "splitlines_from cur [] = (if cur = [] then [] else [cur])"
| "splitlines_from cur [c] =
     (if is_linebreak c then [cur] else [cur @ [c]])"
| "splitlines_from cur (c # d # cs) =
     (if c = CHR 0x0D \<and> d = CHR 0x0A then cur # splitlines_from [] cs
      else if is_linebreak c then cur # splitlines_from [] (d # cs)
      else splitlines_from (cur @ [c]) (d # cs))"

definition splitlines :: "string \<Rightarrow> string list" where
  "splitlines s = splitlines_from [] s"

text \<open>\<open>" " * n\<close>: empty for a negative \<open>n\<close>.\<close>

definition spaces :: "int \<Rightarrow> string" where
  "spaces n = replicate (nat n) CHR '' ''"

subsection \<open>The regular expressions of \<open>re.search\<close>\<close>

text \<open>
  The two patterns of the source are sequences of literal characters, greedy repetitions of
  a character class (letters \<open>[a-zA-Z]\<close>, any character but a newline, whitespace) and capturing groups around such a
  repetition. \<open>re_match\<close> is the backtracking matcher: a greedy repetition tries its
  longest length first, the groups are collected in order. \<open>re_search\<close> takes the
  leftmost start that matches.
\<close>

datatype cclass = Alpha | AnyChar | Space

fun in_class :: "cclass \<Rightarrow> char \<Rightarrow> bool" where
  "in_class Alpha c =
     (let n = (of_char c :: nat) in (65 \<le> n \<and> n \<le> 90) \<or> (97 \<le> n \<and> n \<le> 122))"
| "in_class AnyChar c = (c \<noteq> CHR 0x0A)"
| "in_class Space c = is_space c"

datatype re_item = Lit char | Plus cclass | Star cclass | GroupPlus cclass

fun first_match :: "(nat \<Rightarrow> 'a option) \<Rightarrow> nat list \<Rightarrow> 'a option" where
  "first_match f [] = None"
| "first_match f (k # ks) = (case f k of Some r \<Rightarrow> Some r | None \<Rightarrow> first_match f ks)"

fun re_match :: "re_item list \<Rightarrow> string \<Rightarrow> string list \<Rightarrow> string list option" where
  "re_match [] s groups = Some groups"
| "re_match (Lit c # r) s groups =
     (case s of [] \<Rightarrow> None | x # xs \<Rightarrow> if x = c then re_match r xs groups else None)"
| "re_match (Plus k # r) s groups =
     first_match (\<lambda>m. re_match r (drop m s) groups)
       (rev [1 ..< Suc (length (takeWhile (in_class k) s))])"
| "re_match (Star k # r) s groups =
     first_match (\<lambda>m. re_match r (drop m s) groups)
       (rev [0 ..< Suc (length (takeWhile (in_class k) s))])"
| "re_match (GroupPlus k # r) s groups =
     first_match (\<lambda>m. re_match r (drop m s) (groups @ [take m s]))
       (rev [1 ..< Suc (length (takeWhile (in_class k) s))])"

definition re_search :: "re_item list \<Rightarrow> string \<Rightarrow> string list option" where
  "re_search r s = first_match (\<lambda>i. re_match r (drop i s) []) [0 ..< Suc (length s)]"

subsection \<open>Exceptions\<close>

text \<open>
  Exceptions are values. \<open>AttributeError a\<close> is the use of attribute \<open>a\<close> of \<open>None\<close>;
  \<open>OtherException t m\<close> is any exception of the rule compiler or the rule loader, with
  \<open>str(type(e)) = t\<close> and \<open>str(e) = m\<close>.
\<close>

datatype exn =
    FileNotFoundError string
  | Warning string
  | AttributeError string
  | OtherException string string

fun exn_type_str :: "exn \<Rightarrow> string" where
  "exn_type_str (FileNotFoundError m) = ''<class 'FileNotFoundError'>''"
| "exn_type_str (Warning m) = ''<class 'Warning'>''"
| "exn_type_str (AttributeError m) = ''<class 'AttributeError'>''"
| "exn_type_str (OtherException t m) = t"

fun exn_str :: "exn \<Rightarrow> string" where
  "exn_str (FileNotFoundError m) = m"
| "exn_str (Warning m) = m"
| "exn_str (AttributeError m) = m"
| "exn_str (OtherException t m) = m"

section \<open>Expression flattener and overlap detection (scripts/detect_duplicate_features.py)\<close>

subsection \<open>The compiled rule statement\<close>

text \<open>
  The statement tree of \<open>capa.engine\<close>, as far as \<open>get_child_features\<close> inspects it:
  \<open>And\<close>, \<open>Or\<close> and \<open>Some\<close> carry \<open>children\<close>; \<open>Subscope\<close>, \<open>Range\<close> and \<open>Not\<close> carry one
  \<open>child\<close>; every other object is a feature, appended as it is. The type \<open>'f\<close> is the
  feature object, compared by \<open>==\<close>.
\<close>

datatype 'f statement =
    And "'f statement list"
  | Or "'f statement list"
  | SomeOf nat "'f statement list"
  | Subscope string "'f statement"
  | RangeOf "'f statement" nat nat
  | NotOf "'f statement"
  | Leaf 'f

text \<open>
  \<open>children = []\<close>, then \<open>children.extend(get_child_features(child))\<close> for each child in
  order: a left fold that appends.
\<close>

fun get_child_features :: "'f statement \<Rightarrow> 'f list" where
  "get_child_features (And cs) =
     foldl (\<lambda>children child. children @ get_child_features child) [] cs"
| "get_child_features (Or cs) =
     foldl (\<lambda>children child. children @ get_child_features child) [] cs"
| "get_child_features (SomeOf n cs) =
     foldl (\<lambda>children child. children @ get_child_features child) [] cs"
| "get_child_features (Subscope sc c) = [] @ get_child_features c"
| "get_child_features (RangeOf c lo hi) = [] @ get_child_features c"
| "get_child_features (NotOf c) = [] @ get_child_features c"
| "get_child_features (Leaf f) = [] @ [f]"

text \<open>
  The reading of the specification: the leaves of the tree in pre-order, and their number.
\<close>

primrec leaves_preorder :: "'f statement \<Rightarrow> 'f list" where
  "leaves_preorder (And cs) = concat (map leaves_preorder cs)"
| "leaves_preorder (Or cs) = concat (map leaves_preorder cs)"
| "leaves_preorder (SomeOf n cs) = concat (map leaves_preorder cs)"
| "leaves_preorder (Subscope sc c) = leaves_preorder c"
| "leaves_preorder (RangeOf c lo hi) = leaves_preorder c"
| "leaves_preorder (NotOf c) = leaves_preorder c"
| "leaves_preorder (Leaf f) = [f]"

primrec leaf_count :: "'f statement \<Rightarrow> nat" where
  "leaf_count (And cs) = sum_list (map leaf_count cs)"
| "leaf_count (Or cs) = sum_list (map leaf_count cs)"
| "leaf_count (SomeOf n cs) = sum_list (map leaf_count cs)"
| "leaf_count (Subscope sc c) = leaf_count c"
| "leaf_count (RangeOf c lo hi) = leaf_count c"
| "leaf_count (NotOf c) = leaf_count c"
| "leaf_count (Leaf f) = 1"

subsection \<open>Files and the rule loader\<close>

text \<open>
  What the script reaches outside itself: the files that \<open>open\<close> can read (path to
  contents), \<open>capa.rules.Rule.from_yaml\<close> followed by \<open>.statement\<close>, and
  \<open>capa.main.get_rules\<close> with the \<open>rules.items()\<close> of its result in order. The latter two
  are not part of the script and are parameters here.
\<close>

record 'f env =
  files :: "string \<rightharpoonup> string"
  from_yaml :: "string \<Rightarrow> exn + 'f statement"
  get_rules :: "string list \<Rightarrow> exn + (string \<times> 'f statement) list"

text \<open>Every file opened and every rule set loaded is logged, oldest first.\<close>

datatype io_event = OpenFile string | GetRules "string list"

definition open_error :: "string \<Rightarrow> exn" where
  "open_error path =
     FileNotFoundError (''[Errno 2] No such file or directory: '' @ [CHR 0x27] @ path @ [CHR 0x27])"

text \<open>
  \<open>get_features\<close>: \<open>open\<close> is outside the \<open>try\<close>, so its failure propagates unchanged; any
  exception of reading the rule is raised again as a \<open>Warning\<close>.
\<close>

definition get_features ::
  "'f env \<Rightarrow> string \<Rightarrow> io_event list \<Rightarrow> (exn + 'f list) \<times> io_event list" where
  "get_features E rule_path log =
     (case files E rule_path of
        None \<Rightarrow> (Inl (open_error rule_path), log @ [OpenFile rule_path])
      | Some contents \<Rightarrow>
          (case from_yaml E contents of
             Inl e \<Rightarrow>
               (Inl (Warning (''Error: '' @ rule_path @ '' '' @ exn_type_str e @ '' '' @ exn_str e)),
                log @ [OpenFile rule_path])
           | Inr new_rule \<Rightarrow> (Inr (get_child_features new_rule), log @ [OpenFile rule_path])))"

record overlap_result =
  overlapping_rules :: "string list"
  count :: int

text \<open>
  One pass of the loop over \<open>ruleset.rules.items()\<close>: \<open>continue\<close> on an empty feature
  list, otherwise count the rule and test
  \<open>any([feature in rule_features for feature in new_rule_features])\<close>.
\<close>

definition check_rule :: "'f list \<Rightarrow> overlap_result \<Rightarrow> string \<times> 'f statement \<Rightarrow> overlap_result" where
  "check_rule new_rule_features st item =
     (let rule_name = fst item;
          rule_features = get_child_features (snd item)
      in if length rule_features = 0 then st
         else
           (let st1 = st\<lparr>count := count st + 1\<rparr>
            in if list_ex (\<lambda>b. b) (map (\<lambda>feature. feature \<in> set rule_features) new_rule_features)
               then st1\<lparr>overlapping_rules := overlapping_rules st1 @ [rule_name]\<rparr>
               else st1))"

definition bad_suffix_error :: exn where
  "bad_suffix_error =
     FileNotFoundError ''FileNotFoundError ! New rule file name doesn't end with yml''"

definition find_overlapping_rules ::
  "'f env \<Rightarrow> string \<Rightarrow> string list \<Rightarrow> io_event list \<Rightarrow> (exn + overlap_result) \<times> io_event list" where
  "find_overlapping_rules E new_rule_path rules_path log =
     (if \<not> endswith new_rule_path ''.yml'' then (Inl bad_suffix_error, log)
      else
        (case get_features E new_rule_path log of
           (Inl e, log1) \<Rightarrow> (Inl e, log1)
         | (Inr new_rule_features, log1) \<Rightarrow>
             (case get_rules E rules_path of
                Inl e \<Rightarrow> (Inl e, log1 @ [GetRules rules_path])
              | Inr ruleset \<Rightarrow>
                  (Inr (foldl (check_rule new_rule_features)
                          \<lparr>overlapping_rules = [], count = 0\<rparr> ruleset),
                   log1 @ [GetRules rules_path]))))"

section \<open>Rule text and the editor tree (capa/ida/plugin/view.py)\<close>

subsection \<open>Lines\<close>

text \<open>
  \<open>calc_level_by_indent(line, prev_level=0)\<close>: a blank line gets \<open>prev_level\<close>; a line whose
  content starts with \<open>description\<close> loses its first two characters before the leading
  whitespace is counted, so the level is an integer that may be negative.
\<close>

definition calc_level_by_indent :: "string \<Rightarrow> int \<Rightarrow> int" where
  "calc_level_by_indent line prev_level =
     (if length (strip line) = 0 then prev_level
      else
        (let stripped = lstrip line;
             line1 = (if startswith stripped ''description'' then drop 2 line else line)
         in int (length line1) - int (length stripped)))"

text \<open>
  The pattern of \<open>parse_feature_for_node\<close>: the literal \<open>- count(\<close>, a group of letters,
  \<open>(\<close>, a group of any characters, whitespace, \<open>=\<close>, whitespace, a group of any
  characters, the literal \<open>)):\<close>, optional whitespace, a group of any characters.
\<close>

definition count_description_re :: "re_item list" where
  "count_description_re =
     map Lit ''- count('' @ [GroupPlus Alpha, Lit CHR ''('', GroupPlus AnyChar, Plus Space,
       Lit CHR ''='', Plus Space, GroupPlus AnyChar] @ map Lit '')):'' @ [Star Space, GroupPlus AnyChar]"

text \<open>
  The pattern of \<open>parse_node_for_feature\<close>: the literal \<open>- count(\<close>, a group of letters,
  \<open>(\<close>, a group of any characters, the literal \<open>)):\<close> and a space, a group of any
  characters.
\<close>

definition count_re :: "re_item list" where
  "count_re =
     map Lit ''- count('' @ [GroupPlus Alpha, Lit CHR ''('', GroupPlus AnyChar] @ map Lit '')): ''
       @ [GroupPlus AnyChar]"

text \<open>
  \<open>parse_feature_for_node(feature)\<close> returns the stripped feature, description and comment.
  In the \<open>- count\<close> branch the comment is cut off before the pattern is tried.
\<close>

definition parse_feature_for_node :: "string \<Rightarrow> string \<times> string \<times> string" where
  "parse_feature_for_node feature =
     (if startswith feature ''- count'' then
        (case partition_at feature CHR ''#'' of (feature1, _, comment) \<Rightarrow>
           (case re_search count_description_re feature1 of
              Some [name, val, description, cnt] \<Rightarrow>
                (strip (''- count('' @ name @ ''('' @ val @ '')): '' @ cnt), strip description, strip comment)
            | _ \<Rightarrow> (strip feature1, strip [], strip comment)))
      else if \<not> startswith feature ''#'' then
        (case partition_at feature CHR ''#'' of (feature1, _, comment) \<Rightarrow>
           (case partition_at feature1 CHR ''='' of (feature2, _, description) \<Rightarrow>
              (strip feature2, strip description, strip comment)))
      else (strip feature, strip [], strip []))"

text \<open>
  \<open>parse_node_for_feature(feature, description, comment, depth)\<close>. A \<open>- count\<close> feature
  with a description that the pattern does not match leaves \<open>display\<close> empty; the final
  line adds the newline that is missing.
\<close>

definition parse_node_for_feature :: "string \<Rightarrow> string \<Rightarrow> string \<Rightarrow> int \<Rightarrow> string" where
  "parse_node_for_feature feature description comment depth0 =
     (let depth = (depth0 * 2) + 4;
          display =
            (if startswith feature ''#'' then spaces depth @ feature @ [NL]
             else if description \<noteq> [] then
               (if list_ex (startswith feature)
                     [''- and'', ''- or'', ''- optional'', ''- basic block'', ''- not''] then
                  spaces depth @ feature @ (if comment \<noteq> [] then '' # '' @ comment else [])
                    @ [NL] @ spaces (depth + 2) @ ''- description: '' @ description @ [NL]
                else if startswith feature ''- string'' then
                  spaces depth @ feature @ (if comment \<noteq> [] then '' # '' @ comment else [])
                    @ [NL] @ spaces (depth + 2) @ ''description: '' @ description @ [NL]
                else if startswith feature ''- count'' then
                  (case re_search count_re feature of
                     Some [name, val, cnt] \<Rightarrow>
                       (if name = ''string'' then
                          spaces depth @ feature @ (if comment \<noteq> [] then '' # '' @ comment else [])
                            @ [NL] @ spaces (depth + 2) @ ''description: '' @ description @ [NL]
                        else
                          spaces depth @ ''- count('' @ name @ ''('' @ val @ '' = '' @ description
                            @ '')): '' @ cnt
                            @ (if comment \<noteq> [] then '' # '' @ comment @ [NL] else []))
                   | _ \<Rightarrow> [])
                else
                  spaces depth @ feature @ '' = '' @ description
                    @ (if comment \<noteq> [] then '' # '' @ comment @ [NL] else []))
             else spaces depth @ feature @ (if comment \<noteq> [] then '' # '' @ comment @ [NL] else []))
      in if endswith display [NL] then display else display @ [NL])"

subsection \<open>Nodes\<close>

text \<open>
  What the source keeps in a \<open>QTreeWidgetItem\<close>: the three text columns and the attributes
  \<open>capa_level\<close> and \<open>capa_type\<close>.
\<close>

record node =
  text0 :: string
  text1 :: string
  text2 :: string
  capa_level :: int
  capa_type :: nat

definition get_node_type_expression :: nat where
  "get_node_type_expression = 0"

definition get_node_type_feature :: nat where
  "get_node_type_feature = 1"

definition get_node_type_comment :: nat where
  "get_node_type_comment = 2"

text \<open>
  \<open>yaml_to_nodes(s)\<close>: \<open>level = 0\<close> before the loop, and the loop body never assigns
  \<open>level\<close>, so every call of \<open>calc_level_by_indent\<close> gets the same value.
\<close>

fun yaml_to_nodes_loop :: "int \<Rightarrow> string list \<Rightarrow> node list" where
  "yaml_to_nodes_loop level [] = []"
| "yaml_to_nodes_loop level (line # lines) =
     (case parse_feature_for_node (strip line) of (feature, description, comment) \<Rightarrow>
        \<lparr>text0 = feature, text1 = description, text2 = comment,
         capa_level = calc_level_by_indent line level,
         capa_type =
           (if list_ex (startswith feature)
                 [''- and:'', ''- or:'', ''- not:'', ''- basic block:'', ''- optional:'']
            then get_node_type_expression
            else if startswith feature ''#'' then get_node_type_comment
            else get_node_type_feature)\<rparr>
        # yaml_to_nodes_loop level lines)"

definition yaml_to_nodes :: "string \<Rightarrow> node list" where
  "yaml_to_nodes s = yaml_to_nodes_loop 0 (splitlines s)"

subsection \<open>The tree of the widget\<close>

text \<open>
  The items of the widget form a tree under the root item. An item that is in the tree is
  referred to by its path from the root (the child indices on the way down); such a
  reference stays valid because children are only ever appended. A variable that may hold
  \<open>None\<close> is a \<open>nat list option\<close>. The nodes still waiting in the list are values.
\<close>

datatype qtree = QItem node "qtree list"

fun item_node :: "qtree \<Rightarrow> node" where
  "item_node (QItem n cs) = n"

fun item_children :: "qtree \<Rightarrow> qtree list" where
  "item_children (QItem n cs) = cs"

fun subtree :: "qtree \<Rightarrow> nat list \<Rightarrow> qtree option" where
  "subtree t [] = Some t"
| "subtree (QItem n cs) (i # p) = (if i < length cs then subtree (cs ! i) p else None)"

fun update_at :: "(qtree \<Rightarrow> qtree) \<Rightarrow> nat list \<Rightarrow> qtree \<Rightarrow> qtree" where
  "update_at f [] t = f t"
| "update_at f (i # p) (QItem n cs) =
     (if i < length cs then QItem n (cs[i := update_at f p (cs ! i)]) else QItem n cs)"

text \<open>\<open>item.childCount()\<close>, \<open>item.child(i)\<close> (\<open>None\<close> out of range), \<open>item.parent()\<close>.\<close>

definition childCount :: "qtree \<Rightarrow> nat list \<Rightarrow> nat" where
  "childCount t p = (case subtree t p of Some c \<Rightarrow> length (item_children c) | None \<Rightarrow> 0)"

definition child :: "qtree \<Rightarrow> nat list \<Rightarrow> int \<Rightarrow> nat list option" where
  "child t p i = (if 0 \<le> i \<and> i < int (childCount t p) then Some (p @ [nat i]) else None)"

definition parent_of :: "nat list \<Rightarrow> nat list option" where
  "parent_of p = (if p = [] then None else Some (butlast p))"

text \<open>\<open>parent.parent() if parent.parent() else parent\<close>\<close>

definition ascend :: "nat list \<Rightarrow> nat list" where
  "ascend p = (case parent_of p of Some q \<Rightarrow> q | None \<Rightarrow> p)"

text \<open>\<open>item.text(column)\<close> and \<open>item.setText(column, v)\<close>.\<close>

definition get_column :: "nat \<Rightarrow> node \<Rightarrow> string" where
  "get_column column n =
     (if column = 0 then text0 n
      else if column = 1 then text1 n
      else if column = 2 then text2 n
      else [])"

definition set_column :: "nat \<Rightarrow> string \<Rightarrow> node \<Rightarrow> node" where
  "set_column column v n =
     (if column = 0 then n\<lparr>text0 := v\<rparr>
      else if column = 1 then n\<lparr>text1 := v\<rparr>
      else if column = 2 then n\<lparr>text2 := v\<rparr>
      else n)"

definition item_text :: "qtree \<Rightarrow> nat list \<Rightarrow> nat \<Rightarrow> string" where
  "item_text t p column = (case subtree t p of Some c \<Rightarrow> get_column column (item_node c) | None \<Rightarrow> [])"

definition set_item_text :: "nat \<Rightarrow> string \<Rightarrow> qtree \<Rightarrow> qtree" where
  "set_item_text column v c = QItem (set_column column v (item_node c)) (item_children c)"

definition setText :: "qtree \<Rightarrow> nat list \<Rightarrow> nat \<Rightarrow> string \<Rightarrow> qtree" where
  "setText t p column v = update_at (set_item_text column v) p t"

text \<open>\<open>parent.addChild(node)\<close>: the node becomes the last child, with no children of its own.\<close>

definition append_child :: "node \<Rightarrow> qtree \<Rightarrow> qtree" where
  "append_child nd c = QItem (item_node c) (item_children c @ [QItem nd []])"

definition addChild :: "qtree \<Rightarrow> nat list \<Rightarrow> node \<Rightarrow> qtree" where
  "addChild t p nd = update_at (append_child nd) p t"

subsection \<open>Loading the tree\<close>

text \<open>
  \<open>add_node(parent, node)\<close> of \<open>load_features_from_yaml\<close>. With \<open>parent\<close> being \<open>None\<close> the
  first attribute used on it raises.
\<close>

definition add_node :: "qtree \<Rightarrow> nat list option \<Rightarrow> node \<Rightarrow> exn + qtree" where
  "add_node t parent nd =
     (if startswith (text0 nd) ''description:'' then
        (case parent of
           None \<Rightarrow> Inl (AttributeError ''childCount'')
         | Some p \<Rightarrow>
             (if childCount t p \<noteq> 0 then
                (case child t p (int (childCount t p) - 1) of
                   None \<Rightarrow> Inl (AttributeError ''setText'')
                 | Some c \<Rightarrow> Inr (setText t c 1 (lstrip (lstrip_chars (text0 nd) ''description:''))))
              else Inr (setText t p 1 (lstrip (lstrip_chars (text0 nd) ''description:'')))))
      else if startswith (text0 nd) ''- description:'' then
        (case parent of
           None \<Rightarrow> Inl (AttributeError ''setText'')
         | Some p \<Rightarrow> Inr (setText t p 1 (lstrip (lstrip_chars (text0 nd) ''- description:''))))
      else
        (case parent of
           None \<Rightarrow> Inl (AttributeError ''addChild'')
         | Some p \<Rightarrow> Inr (addChild t p nd)))"

text \<open>
  \<open>build(parent, nodes)\<close>. \<open>build_loop\<close> is its \<open>while nodes\<close> loop, with the local variables
  \<open>parent\<close> and \<open>child_lvl\<close>. The list \<open>nodes\<close> is shared with the recursive call, which
  returns only when the list is empty: the loop of the caller ends there, so the result of
  the recursive call is the result of the caller.
\<close>

function build :: "qtree \<Rightarrow> nat list option \<Rightarrow> node list \<Rightarrow> exn + qtree"
  and build_loop :: "qtree \<Rightarrow> nat list option \<Rightarrow> int \<Rightarrow> node list \<Rightarrow> exn + qtree" where
  "build t parent nodes =
     (if nodes \<noteq> [] then build_loop t parent (capa_level (hd nodes)) nodes else Inr t)"
| "build_loop t parent child_lvl [] = Inr t"
| "build_loop t parent child_lvl (nd # nodes) =
     (if capa_level nd = child_lvl then
        (case add_node t parent nd of
           Inl e \<Rightarrow> Inl e
         | Inr t1 \<Rightarrow> build_loop t1 parent child_lvl nodes)
      else if capa_level nd > child_lvl then
        (case parent of
           None \<Rightarrow> Inl (AttributeError ''child'')
         | Some p \<Rightarrow> build t (child t p (int (childCount t p) - 1)) (nd # nodes))
      else
        (case parent of
           None \<Rightarrow> Inl (AttributeError ''parent'')
         | Some p \<Rightarrow>
             (let parent1 = ascend p
              in case add_node t (Some parent1) nd of
                   Inl e \<Rightarrow> Inl e
                 | Inr t1 \<Rightarrow> build_loop t1 (Some parent1) child_lvl nodes)))"
  by pat_completeness auto
termination
  by (relation "measure (\<lambda>x. case x of
        Inl (t, parent, nodes) \<Rightarrow> 3 * length nodes + 1
      | Inr (t, parent, child_lvl, nodes) \<Rightarrow>
          3 * length nodes + (if nodes \<noteq> [] \<and> capa_level (hd nodes) > child_lvl then 2 else 0))")
    auto

text \<open>
  The editor: the root item of the tree widget (\<open>None\<close> after \<open>reset_view\<close>) and the text
  of the preview pane. \<open>load_features_from_yaml\<close> also styles every node by its type and
  expands the view; neither changes a text, a level or the shape of the tree.
\<close>

record editor =
  root :: "qtree option"
  preview :: string

definition load_features_from_yaml :: "editor \<Rightarrow> string \<Rightarrow> bool \<Rightarrow> exn + editor" where
  "load_features_from_yaml ed rule_text update_preview_flag =
     (let ed0 = ed\<lparr>root := None\<rparr>
      in if - 1 = find_str rule_text ''features:'' then Inr ed0
         else
           (let rule_features =
                  strip (drop (nat (find_str rule_text ''features:'' + int (length ''features:''))) rule_text);
                rule_nodes = yaml_to_nodes rule_features
            in case rule_nodes of
                 [] \<Rightarrow> Inr ed0
               | r # rest \<Rightarrow>
                   (let ed1 = ed0\<lparr>root := Some (QItem r [])\<rparr>;
                        ed2 = (if update_preview_flag then ed1\<lparr>preview := rule_text\<rparr> else ed1)
                    in case build (QItem r []) (Some []) rest of
                         Inl e \<Rightarrow> Inl e
                       | Inr t \<Rightarrow> Inr (ed2\<lparr>root := Some t\<rparr>))))"

subsection \<open>Writing the tree\<close>

text \<open>\<open>iterate_tree\<close>: the items of the tree in pre-order.\<close>

function iterate_tree :: "nat list \<Rightarrow> qtree \<Rightarrow> nat list list" where
  "iterate_tree p (QItem n cs) =
     p # concat (map (\<lambda>(i, c). iterate_tree (p @ [i]) c) (zip [0 ..< length cs] cs))"
  by pat_completeness auto
termination
  by (relation "measure (\<lambda>(p, t). size t)")
    (auto dest!: set_zip_rightD simp: less_Suc_eq_le size_list_estimation')

text \<open>\<open>calc_item_depth(o)\<close>: the number of \<open>parent()\<close> steps up to the root.\<close>

function calc_item_depth_loop :: "int \<Rightarrow> nat list \<Rightarrow> int" where
  "calc_item_depth_loop depth p =
     (case parent_of p of None \<Rightarrow> depth | Some q \<Rightarrow> calc_item_depth_loop (depth + 1) q)"
  by pat_completeness auto
termination
  by (relation "measure (\<lambda>(depth, p). length p)") (auto simp: parent_of_def split: if_splits)

definition calc_item_depth :: "nat list \<Rightarrow> int" where
  "calc_item_depth p = calc_item_depth_loop 0 p"

text \<open>
  \<open>self.preview.toPlainText()\<close>: the text edit gives its text back with every line end as
  a newline (a carriage return, alone or before a newline, has become a newline) and every
  no-break space as a space.
\<close>

definition plain_char :: "char \<Rightarrow> char" where
  "plain_char c = (if c = CHR 0x0D then CHR 0x0A else if c = CHR 0xA0 then CHR 0x20 else c)"

fun toPlainText :: "string \<Rightarrow> string" where
  "toPlainText [] = []"
| "toPlainText [c] = [plain_char c]"
| "toPlainText (c # d # cs) =
     (if c = CHR 0x0D \<and> d = CHR 0x0A then CHR 0x0A # toPlainText cs
      else plain_char c # toPlainText (d # cs))"

definition update_preview :: "editor \<Rightarrow> editor" where
  "update_preview ed =
     (let rule_text = toPlainText (preview ed);
          rule_text1 =
            (if - 1 \<noteq> find_str rule_text ''features:''
             then take (nat (find_str rule_text ''features:'' + int (length ''features:''))) rule_text @ [NL]
             else rstrip rule_text @ [NL] @ ''  features:'' @ [NL])
      in ed\<lparr>preview :=
           (case root ed of
              None \<Rightarrow> rule_text1
            | Some t \<Rightarrow>
                foldl (\<lambda>text item.
                         text @ parse_node_for_feature (strip (item_text t item 0))
                                  (strip (item_text t item 1)) (strip (item_text t item 2))
                                  (calc_item_depth item))
                  rule_text1 (iterate_tree [] t))\<rparr>)"

text \<open>Loading a rule text into an empty editor and writing the preview again.\<close>

definition round_trip :: "string \<Rightarrow> exn + string" where
  "round_trip rule_text =
     (case load_features_from_yaml \<lparr>root = None, preview = []\<rparr> rule_text True of
        Inl e \<Rightarrow> Inl e
      | Inr ed \<Rightarrow> Inr (preview (update_preview ed)))"

subsection \<open>The tree without its descriptions\<close>

text \<open>The tree with every description column emptied: its items and all their other data.\<close>

fun clear_descriptions :: "qtree \<Rightarrow> qtree" where
  "clear_descriptions (QItem n cs) = QItem (n\<lparr>text1 := []\<rparr>) (map clear_descriptions cs)"

section \<open>Example data\<close>

definition example_env :: "string env" where
  "example_env =
     \<lparr>files = [''new.yml'' \<mapsto> ''rule''],
      from_yaml = (\<lambda>text. Inr (And [Leaf ''mutex: foo'', Leaf ''api: CreateFileA''])),
      get_rules = (\<lambda>paths. Inr [(''X'', Or [Leaf ''api: CreateFileA'']),
                                 (''Y'', Leaf ''api: WriteFile''),
                                 (''Z'', And [])])\<rparr>"

definition mk_node :: "string \<Rightarrow> int \<Rightarrow> nat \<Rightarrow> node" where
  "mk_node feature level ty =
     \<lparr>text0 = feature, text1 = [], text2 = [], capa_level = level, capa_type = ty\<rparr>"

definition and_tree :: qtree where
  "and_tree = QItem (mk_node ''- and:'' 0 0) [QItem (mk_node ''- api: x'' 6 1) []]"

definition deep_rule_text :: string where
  "deep_rule_text =
     ''  features:'' @ [NL]
     @ ''    - or:'' @ [NL]
     @ ''      - and:'' @ [NL]
     @ ''        - or:'' @ [NL]
     @ ''          - and:'' @ [NL]
     @ ''            - api: a'' @ [NL]
     @ ''      - api: b'' @ [NL]"

definition siblings_rule_text :: string where
  "siblings_rule_text =
     ''  features:'' @ [NL]
     @ ''    - or:'' @ [NL]
     @ ''      - and:'' @ [NL]
     @ ''        - or:'' @ [NL]
     @ ''          - api: a'' @ [NL]
     @ ''        - api: b'' @ [NL]
     @ ''        - api: c'' @ [NL]"

definition described_rule_text :: string where
  "described_rule_text =
     ''rule:'' @ [NL] @ ''  meta:'' @ [NL] @ ''    name: t'' @ [NL] @ ''  features:'' @ [NL]
     @ ''    - and:'' @ [NL]
     @ ''      - description: encrypt data'' @ [NL]
     @ ''      - api: CryptEncrypt'' @ [NL]"

definition nested_rule_text :: string where
  "nested_rule_text =
     ''rule:'' @ [NL] @ ''  meta:'' @ [NL] @ ''    name: t'' @ [NL] @ ''  features:'' @ [NL]
     @ ''    - or:'' @ [NL]
     @ ''      - and:'' @ [NL]
     @ ''        - api: a'' @ [NL]
     @ ''      - and:'' @ [NL]
     @ ''        - api: b'' @ [NL]"

definition blank_line_text :: string where
  "blank_line_text = ''- or:'' @ [NL] @ ''  # comment'' @ [NL] @ [NL] @ ''  - api: x''"

definition description_then_deeper_text :: string where
  "description_then_deeper_text =
     ''  features:'' @ [NL] @ ''    - and:'' @ [NL] @ ''      - description: two calls'' @ [NL]
     @ ''        - api: x'' @ [NL]"

section \<open>Properties of the flattener\<close>

lemma foldl_append_concat:
  "foldl (\<lambda>acc c. acc @ f c) acc0 cs = acc0 @ concat (map f cs)"
  by (induction cs arbitrary: acc0) simp_all

lemma get_child_features_leaves: "get_child_features t = leaves_preorder t"
  by (induction t) (simp_all add: foldl_append_concat cong: map_cong)

lemma length_leaves_preorder: "length (leaves_preorder t) = leaf_count t"
  by (induction t) (simp_all add: length_concat comp_def cong: map_cong)

text \<open>
  C2. \<open>get_child_features\<close> returns the leaves in pre-order: \<open>And\<close>, \<open>Or\<close> and \<open>Some\<close> give
  the concatenation of the flattenings of their children in order, \<open>Not\<close>, \<open>Subscope\<close> and
  \<open>Range\<close> give the flattening of their child, a leaf gives itself as a singleton; the
  result is the pre-order leaf sequence, and its length is the number of leaf occurrences
  of the tree (none dropped, none merged).
\<close>

theorem get_child_features_preorder:
  "get_child_features (And cs) = concat (map get_child_features cs)
   \<and> get_child_features (Or cs) = concat (map get_child_features cs)
   \<and> get_child_features (SomeOf n cs) = concat (map get_child_features cs)
   \<and> get_child_features (NotOf c) = get_child_features c
   \<and> get_child_features (Subscope sc c) = get_child_features c
   \<and> get_child_features (RangeOf c lo hi) = get_child_features c
   \<and> get_child_features (Leaf f) = [f]
   \<and> get_child_features t = leaves_preorder t
   \<and> length (get_child_features t) = leaf_count t"
proof -
  have "length (get_child_features t) = leaf_count t"
    by (simp only: get_child_features_leaves length_leaves_preorder)
  then show ?thesis
    by (simp add: foldl_append_concat get_child_features_leaves [of t])
qed


section \<open>Properties of the overlap search\<close>

lemma any_member_iff:
  "list_ex (\<lambda>b. b) (map (\<lambda>feature. feature \<in> set rule_features) new_rule_features)
   \<longleftrightarrow> (\<exists>f \<in> set new_rule_features. f \<in> set rule_features)"
  by (auto simp: list_ex_iff)

lemma check_rule_loop:
  "foldl (check_rule new) st ruleset =
     \<lparr>overlapping_rules = overlapping_rules st @
        map fst (filter (\<lambda>item. \<exists>f \<in> set new. f \<in> set (get_child_features (snd item))) ruleset),
      count = count st + int (length (filter (\<lambda>item. get_child_features (snd item) \<noteq> []) ruleset))\<rparr>"
proof (induction ruleset arbitrary: st)
  case Nil
  then show ?case by simp
next
  case (Cons item ruleset)
  show ?case
  proof (cases "get_child_features (snd item) = []")
    case True
    then have "check_rule new st item = st"
      by (simp add: check_rule_def)
    with True show ?thesis
      by (simp add: Cons.IH)
  next
    case False
    show ?thesis
    proof (cases "\<exists>f \<in> set new. f \<in> set (get_child_features (snd item))")
      case True
      with False have "check_rule new st item =
          st\<lparr>count := count st + 1, overlapping_rules := overlapping_rules st @ [fst item]\<rparr>"
        by (simp add: check_rule_def any_member_iff Let_def)
      with False True show ?thesis
        by (simp add: Cons.IH)
    next
      case nooverlap: False
      with False have "check_rule new st item = st\<lparr>count := count st + 1\<rparr>"
        by (simp add: check_rule_def any_member_iff Let_def)
      with False nooverlap show ?thesis
        by (simp add: Cons.IH)
    qed
  qed
qed

text \<open>
  C8. In \<open>find_overlapping_rules\<close> a candidate rule is counted exactly when its flattened
  feature list is non-empty, and it is reported exactly when some feature of the new rule
  equals some feature of the candidate's list; the names are reported in the order of the
  candidates.
\<close>

theorem find_overlapping_rules_result:
  assumes "endswith new_rule_path ''.yml''"
    and "files E new_rule_path = Some contents"
    and "from_yaml E contents = Inr new_rule"
    and "get_rules E rules_path = Inr ruleset"
  shows "fst (find_overlapping_rules E new_rule_path rules_path log) =
     Inr \<lparr>overlapping_rules =
            map fst (filter (\<lambda>item. \<exists>f \<in> set (get_child_features new_rule).
                                      f \<in> set (get_child_features (snd item))) ruleset),
          count = int (length (filter (\<lambda>item. get_child_features (snd item) \<noteq> []) ruleset))\<rparr>"
  using assms
  by (simp add: find_overlapping_rules_def get_features_def check_rule_loop)

theorem find_overlapping_rules_result_witness:
  "endswith ''new.yml'' ''.yml''
   \<and> files example_env ''new.yml'' = Some ''rule''
   \<and> fst (find_overlapping_rules example_env ''new.yml'' [''rules''] []) =
       Inr \<lparr>overlapping_rules = [''X''], count = 2\<rparr>"
proof -
  have h1: "endswith ''new.yml'' ''.yml''"
    by (simp add: endswith_def)
  have h2: "files example_env ''new.yml'' = Some ''rule''"
    by (simp add: example_env_def)
  have h3: "from_yaml example_env ''rule'' = Inr (And [Leaf ''mutex: foo'', Leaf ''api: CreateFileA''])"
    by (simp add: example_env_def)
  have h4: "get_rules example_env [''rules''] =
      Inr [(''X'', Or [Leaf ''api: CreateFileA'']), (''Y'', Leaf ''api: WriteFile''), (''Z'', And [])]"
    by (simp add: example_env_def)
  show ?thesis
    using find_overlapping_rules_result [OF h1 h2 h3 h4, of "[]"] h1 h2
    by simp
qed

lemma open_error_not_bad_suffix: "open_error path \<noteq> bad_suffix_error"
  by (simp add: open_error_def bad_suffix_error_def)

lemma get_features_log:
  "snd (get_features E rule_path log) = log @ [OpenFile rule_path]"
  by (simp add: get_features_def split: option.splits sum.splits)

lemma get_features_not_bad_suffix:
  "fst (get_features E rule_path log) \<noteq> Inl bad_suffix_error"
proof (cases "files E rule_path")
  case None
  then show ?thesis
    by (simp add: get_features_def open_error_not_bad_suffix)
next
  case (Some contents)
  then show ?thesis
    by (simp add: get_features_def bad_suffix_error_def split: sum.splits)
qed

text \<open>
  C9. When the path of the new rule does not end in \<open>.yml\<close>, \<open>find_overlapping_rules\<close>
  raises its file-name error with nothing opened and no rule set loaded (the log is
  unchanged, no candidate is examined). When the path ends in \<open>.yml\<close> the check does not
  raise: the new rule's file is the next thing opened, and the file-name error is not the
  outcome unless the rule loader itself raises it.
\<close>

theorem find_overlapping_rules_suffix:
  "(\<not> endswith new_rule_path ''.yml'' \<longrightarrow>
      find_overlapping_rules E new_rule_path rules_path log = (Inl bad_suffix_error, log))
   \<and> (endswith new_rule_path ''.yml'' \<longrightarrow>
      take (Suc (length log)) (snd (find_overlapping_rules E new_rule_path rules_path log))
        = log @ [OpenFile new_rule_path]
      \<and> (get_rules E rules_path \<noteq> Inl bad_suffix_error \<longrightarrow>
           fst (find_overlapping_rules E new_rule_path rules_path log) \<noteq> Inl bad_suffix_error))"
proof (cases "endswith new_rule_path ''.yml''")
  case False
  then show ?thesis
    by (simp add: find_overlapping_rules_def)
next
  case True
  obtain r log1 where g: "get_features E new_rule_path log = (r, log1)"
    by (cases "get_features E new_rule_path log")
  from g have l: "log1 = log @ [OpenFile new_rule_path]"
    using get_features_log [of E new_rule_path log] by simp
  from g have r: "r \<noteq> Inl bad_suffix_error"
    using get_features_not_bad_suffix [of E new_rule_path log] by simp
  from True g l r show ?thesis
    by (auto simp: find_overlapping_rules_def split: sum.splits)
qed

theorem find_overlapping_rules_suffix_witness:
  "\<not> endswith ''rule.yaml'' ''.yml''
   \<and> find_overlapping_rules example_env ''rule.yaml'' [''rules''] [] = (Inl bad_suffix_error, [])
   \<and> endswith ''new.yml'' ''.yml''
   \<and> take (Suc 0) (snd (find_overlapping_rules example_env ''new.yml'' [''rules''] []))
        = [OpenFile ''new.yml'']
   \<and> get_rules example_env [''rules''] \<noteq> Inl bad_suffix_error
   \<and> fst (find_overlapping_rules example_env ''new.yml'' [''rules''] []) \<noteq> Inl bad_suffix_error"
proof -
  have a: "\<not> endswith ''rule.yaml'' ''.yml''"
    by (simp add: endswith_def)
  have b: "endswith ''new.yml'' ''.yml''"
    by (simp add: endswith_def)
  have c: "get_rules example_env [''rules''] \<noteq> Inl bad_suffix_error"
    by (simp add: example_env_def)
  show ?thesis
    using find_overlapping_rules_suffix [of "''rule.yaml''" example_env "[''rules'']" "[]"]
      find_overlapping_rules_suffix [of "''new.yml''" example_env "[''rules'']" "[]"] a b c
    by simp
qed

section \<open>Properties of the line classifier and the serializer\<close>

lemma endswith_append: "endswith (xs @ ys) ys"
  by (simp add: endswith_def)

lemma parse_count_number:
  "parse_feature_for_node ''- count(number(5 = desc)): 3 # note'' =
     (''- count(number(5)): 3'', ''desc'', ''note'')"
  by code_simp

lemma parse_count_string:
  "parse_feature_for_node ''- count(string(5 = desc)): 3 # note'' =
     (''- count(string(5)): 3'', ''desc'', ''note'')"
  by code_simp

lemma count_re_number:
  "re_search count_re ''- count(number(5)): 3'' = Some [''number'', ''5'', ''3'']"
  by code_simp

lemma count_re_string:
  "re_search count_re ''- count(string(5)): 3'' = Some [''string'', ''5'', ''3'']"
  by code_simp

lemma serialize_count_number:
  "parse_node_for_feature ''- count(number(5)): 3'' ''desc'' ''note'' depth =
     spaces (depth * 2 + 4) @ ''- count(number(5 = desc)): 3 # note'' @ [NL]"
proof -
  have e: "endswith ((spaces (depth * 2 + 4) @ ''- count(number(5 = desc)): 3 # note'') @ [NL]) [NL]"
    by (rule endswith_append)
  show ?thesis
    unfolding parse_node_for_feature_def Let_def count_re_number
    using e by (simp add: startswith_def)
qed

lemma serialize_count_string:
  "parse_node_for_feature ''- count(string(5)): 3'' ''desc'' ''note'' depth =
     spaces (depth * 2 + 4) @ ''- count(string(5)): 3 # note'' @ [NL]
       @ spaces (depth * 2 + 4 + 2) @ ''description: desc'' @ [NL]"
proof -
  have e: "endswith ((spaces (depth * 2 + 4) @ ''- count(string(5)): 3 # note'' @ [NL]
       @ spaces (depth * 2 + 4 + 2) @ ''description: desc'') @ [NL]) [NL]"
    by (rule endswith_append)
  show ?thesis
    unfolding parse_node_for_feature_def Let_def count_re_string
    using e by (simp add: startswith_def)
qed

text \<open>
  C6. The line \<open>- count(number(5 = desc)): 3 # note\<close>, classified by
  \<open>parse_feature_for_node\<close> and written again by \<open>parse_node_for_feature\<close>, comes back as
  the same line with the description inside the count, at the indentation of its depth and
  ended by a newline. The line \<open>- count(string(5 = desc)): 3 # note\<close> comes back in the
  two-line form: the count without description and the comment, then a \<open>description:\<close>
  line two spaces deeper.
\<close>

theorem counted_feature_symmetry:
  "(case parse_feature_for_node ''- count(number(5 = desc)): 3 # note'' of
      (feature, description, comment) \<Rightarrow> parse_node_for_feature feature description comment depth)
     = spaces (depth * 2 + 4) @ ''- count(number(5 = desc)): 3 # note'' @ [NL]
   \<and> (case parse_feature_for_node ''- count(string(5 = desc)): 3 # note'' of
      (feature, description, comment) \<Rightarrow> parse_node_for_feature feature description comment depth)
     = spaces (depth * 2 + 4) @ ''- count(string(5)): 3 # note'' @ [NL]
         @ spaces (depth * 2 + 4 + 2) @ ''description: desc'' @ [NL]"
  by (simp only: parse_count_number parse_count_string prod.case
      serialize_count_number serialize_count_string)

lemma partition_at_absent: "sep \<notin> set s \<Longrightarrow> partition_at s sep = (s, [], [])"
  by (simp add: partition_at_def)

lemma takeWhile_absent: "sep \<notin> set s \<Longrightarrow> takeWhile (\<lambda>c. c \<noteq> sep) s = s"
  by (induction s) auto

lemma dropWhile_absent: "sep \<notin> set s \<Longrightarrow> dropWhile (\<lambda>c. c \<noteq> sep) s = []"
  by (induction s) auto

lemma strip_Nil: "strip [] = []"
  by (simp add: strip_def lstrip_def rstrip_def)

text \<open>
  C7, as the code has it. For a line that starts with \<open>- count\<close> and whose part before the
  first \<open>#\<close> does not match the counted-feature pattern, \<open>parse_feature_for_node\<close> returns
  (it cannot raise): the feature is that part, stripped, the description is empty, and the
  comment is the stripped text after the first \<open>#\<close>. The comment is empty, and the feature
  the whole stripped line, when the line has no \<open>#\<close>.
\<close>

theorem parse_count_unmatched:
  assumes "startswith feature ''- count''"
    and "re_search count_description_re (fst (partition_at feature CHR ''#'')) = None"
  shows "parse_feature_for_node feature =
           (strip (fst (partition_at feature CHR ''#'')), [],
            strip (snd (snd (partition_at feature CHR ''#''))))
         \<and> fst (partition_at feature CHR ''#'') = takeWhile (\<lambda>c. c \<noteq> CHR ''#'') feature
         \<and> snd (snd (partition_at feature CHR ''#'')) = drop 1 (dropWhile (\<lambda>c. c \<noteq> CHR ''#'') feature)
         \<and> (CHR ''#'' \<notin> set feature \<longrightarrow> parse_feature_for_node feature = (strip feature, [], []))"
proof -
  obtain a b c where p: "partition_at feature CHR ''#'' = (a, b, c)"
    by (cases "partition_at feature CHR ''#''") auto
  with assms have r: "parse_feature_for_node feature = (strip a, [], strip c)"
    by (simp add: parse_feature_for_node_def strip_Nil)
  have t: "a = takeWhile (\<lambda>c. c \<noteq> CHR ''#'') feature"
    using p by (cases "CHR ''#'' \<in> set feature") (simp_all add: partition_at_def takeWhile_absent)
  have d: "c = drop 1 (dropWhile (\<lambda>c. c \<noteq> CHR ''#'') feature)"
    using p by (cases "CHR ''#'' \<in> set feature")
      (simp_all add: partition_at_def dropWhile_absent drop_Suc)
  have n: "CHR ''#'' \<notin> set feature \<longrightarrow> parse_feature_for_node feature = (strip feature, [], [])"
  proof
    assume "CHR ''#'' \<notin> set feature"
    then have "a = feature" and "c = []"
      using p by (simp_all add: partition_at_def)
    with r show "parse_feature_for_node feature = (strip feature, [], [])"
      by (simp add: strip_Nil)
  qed
  have r': "parse_feature_for_node feature =
      (strip (fst (partition_at feature CHR ''#'')), [], strip (snd (snd (partition_at feature CHR ''#''))))"
    using r p by simp
  have t': "fst (partition_at feature CHR ''#'') = takeWhile (\<lambda>c. c \<noteq> CHR ''#'') feature"
    using t p by simp
  have d': "snd (snd (partition_at feature CHR ''#'')) = drop 1 (dropWhile (\<lambda>c. c \<noteq> CHR ''#'') feature)"
    using d p by simp
  from r' t' d' n show ?thesis
    by blast
qed

theorem parse_count_unmatched_witness:
  "startswith ''- count(mnemonic(mov)): 3 # note'' ''- count''
   \<and> re_search count_description_re (fst (partition_at ''- count(mnemonic(mov)): 3 # note'' CHR ''#'')) = None
   \<and> parse_feature_for_node ''- count(mnemonic(mov)): 3 # note'' = (''- count(mnemonic(mov)): 3'', [], ''note'')"
proof -
  have a: "startswith ''- count(mnemonic(mov)): 3 # note'' ''- count''"
    by code_simp
  have b: "re_search count_description_re (fst (partition_at ''- count(mnemonic(mov)): 3 # note'' CHR ''#'')) = None"
    by code_simp
  have c: "strip (fst (partition_at ''- count(mnemonic(mov)): 3 # note'' CHR ''#'')) = ''- count(mnemonic(mov)): 3''"
    by code_simp
  have d: "strip (snd (snd (partition_at ''- count(mnemonic(mov)): 3 # note'' CHR ''#''))) = ''note''"
    by code_simp
  have "parse_feature_for_node ''- count(mnemonic(mov)): 3 # note'' = (''- count(mnemonic(mov)): 3'', [], ''note'')"
    using parse_count_unmatched [OF a b] by (simp only: c d)
  with a b show ?thesis
    by blast
qed

text \<open>
  C7 as stated fails: the line below starts with \<open>- count\<close> and does not match the
  pattern, yet its comment is \<open>note\<close> and its feature is not the whole line.
\<close>

theorem parse_count_comment_counterexample:
  "startswith ''- count(mnemonic(mov)): 3 # note'' ''- count''
   \<and> re_search count_description_re ''- count(mnemonic(mov)): 3 # note'' = None
   \<and> parse_feature_for_node ''- count(mnemonic(mov)): 3 # note''
       = (''- count(mnemonic(mov)): 3'', [], ''note'')"
  by code_simp

section \<open>Properties of the tree builder\<close>

lemma subtree_update_at: "subtree (update_at f p t) p = map_option f (subtree t p)"
  by (induction f p t rule: update_at.induct) simp_all

lemma clear_descriptions_set_item_text:
  "clear_descriptions (set_item_text (Suc 0) v c) = clear_descriptions c"
  by (cases c) (simp add: set_item_text_def set_column_def)

lemma clear_descriptions_update_at:
  "clear_descriptions (update_at (set_item_text (Suc 0) v) p t) = clear_descriptions t"
proof (induction "set_item_text (Suc 0) v" p t rule: update_at.induct)
  case (1 t)
  then show ?case by (simp add: clear_descriptions_set_item_text)
next
  case (2 i p n cs)
  then show ?case
    by (simp add: map_update list_update_same_conv)
qed

lemma clear_descriptions_setText: "clear_descriptions (setText t p (Suc 0) v) = clear_descriptions t"
  by (simp add: setText_def clear_descriptions_update_at)

lemma startswith_dash_description:
  "startswith s ''- description:'' \<Longrightarrow> \<not> startswith s ''description:''"
  by (cases s) (auto simp: startswith_def)

lemma childCount_subtree: "subtree t p = Some c \<Longrightarrow> childCount t p = length (item_children c)"
  by (simp add: childCount_def)

text \<open>
  C5, as the code has it. For a node whose text starts with \<open>description:\<close>, \<open>add_node\<close>
  overwrites the description of the last child of the parent, or of the parent when it has
  no child. For a node whose text starts with \<open>- description:\<close> it overwrites the
  description of the parent, whether or not the parent has children. In both cases no item
  is added: apart from description columns the tree is unchanged.
\<close>

theorem add_node_description:
  assumes "subtree t p = Some c"
  shows "(startswith (text0 nd) ''description:'' \<longrightarrow>
            add_node t (Some p) nd =
              Inr (setText t (if item_children c = [] then p else p @ [length (item_children c) - 1]) 1
                     (lstrip (lstrip_chars (text0 nd) ''description:''))))
       \<and> (startswith (text0 nd) ''- description:'' \<longrightarrow>
            add_node t (Some p) nd =
              Inr (setText t p 1 (lstrip (lstrip_chars (text0 nd) ''- description:''))))
       \<and> (startswith (text0 nd) ''description:'' \<or> startswith (text0 nd) ''- description:'' \<longrightarrow>
            (\<exists>t1. add_node t (Some p) nd = Inr t1 \<and> clear_descriptions t1 = clear_descriptions t))"
proof -
  have cc: "childCount t p = length (item_children c)"
    using assms by (rule childCount_subtree)
  have a: "add_node t (Some p) nd =
              Inr (setText t (if item_children c = [] then p else p @ [length (item_children c) - 1]) 1
                     (lstrip (lstrip_chars (text0 nd) ''description:'')))"
    if "startswith (text0 nd) ''description:''"
  proof (cases "item_children c = []")
    case True
    with that cc show ?thesis
      by (simp add: add_node_def)
  next
    case False
    then have "child t p (int (childCount t p) - 1) = Some (p @ [length (item_children c) - 1])"
      by (simp add: child_def cc nat_diff_distrib' of_nat_diff)
    with that cc False show ?thesis
      by (simp add: add_node_def)
  qed
  have b: "add_node t (Some p) nd =
              Inr (setText t p 1 (lstrip (lstrip_chars (text0 nd) ''- description:'')))"
    if "startswith (text0 nd) ''- description:''"
    using that startswith_dash_description [OF that] by (simp add: add_node_def)
  from a b show ?thesis
    by (auto simp: clear_descriptions_setText)
qed

lemma text0_mk_node: "text0 (mk_node feature level ty) = feature"
  by (simp add: mk_node_def)

theorem add_node_description_witness:
  "subtree and_tree [] = Some and_tree
   \<and> startswith (text0 (mk_node ''description: bar'' 6 1)) ''description:''
   \<and> add_node and_tree (Some []) (mk_node ''description: bar'' 6 1) = Inr (setText and_tree [0] 1 ''bar'')
   \<and> startswith (text0 (mk_node ''- description: foo'' 6 1)) ''- description:''
   \<and> add_node and_tree (Some []) (mk_node ''- description: foo'' 6 1) = Inr (setText and_tree [] 1 ''foo'')"
proof -
  have s: "subtree and_tree [] = Some and_tree"
    by simp
  have a: "startswith (text0 (mk_node ''description: bar'' 6 1)) ''description:''"
    by (simp add: mk_node_def startswith_def)
  have b: "startswith (text0 (mk_node ''- description: foo'' 6 1)) ''- description:''"
    by (simp add: mk_node_def startswith_def)
  have c: "item_children and_tree \<noteq> []" "length (item_children and_tree) - 1 = 0"
    by (simp_all add: and_tree_def)
  have va: "lstrip (lstrip_chars ''description: bar'' ''description:'') = ''bar''"
    by code_simp
  have vb: "lstrip (lstrip_chars ''- description: foo'' ''- description:'') = ''foo''"
    by code_simp
  show ?thesis
    using add_node_description [OF s, of "mk_node ''description: bar'' 6 1"]
      add_node_description [OF s, of "mk_node ''- description: foo'' 6 1"] a b c
    by (simp add: text0_mk_node va vb)
qed

text \<open>
  C5 as stated fails: the parent below has a child, and \<open>- description: foo\<close> sets the
  description of the parent; the second equation shows the tree that overwriting the last
  child would give.
\<close>

theorem add_node_description_counterexample:
  "startswith (text0 (mk_node ''- description: foo'' 6 1)) ''- description:''
   \<and> childCount and_tree [] = 1
   \<and> add_node and_tree (Some []) (mk_node ''- description: foo'' 6 1) =
       Inr (QItem ((mk_node ''- and:'' 0 0)\<lparr>text1 := ''foo''\<rparr>) [QItem (mk_node ''- api: x'' 6 1) []])
   \<and> setText and_tree [0] 1 ''foo'' =
       QItem (mk_node ''- and:'' 0 0) [QItem ((mk_node ''- api: x'' 6 1)\<lparr>text1 := ''foo''\<rparr>) []]"
  by code_simp

lemma add_node_plain:
  "\<not> startswith (text0 nd) ''description:'' \<Longrightarrow> \<not> startswith (text0 nd) ''- description:''
   \<Longrightarrow> add_node t (Some p) nd = Inr (addChild t p nd)"
  by (simp add: add_node_def)

lemma subtree_addChild:
  "subtree t p = Some c \<Longrightarrow>
   subtree (addChild t p nd) p = Some (QItem (item_node c) (item_children c @ [QItem nd []]))"
  by (simp add: addChild_def subtree_update_at append_child_def)

text \<open>
  On a line whose level is below the current level the loop moves one step up, to the
  parent of the current parent, or stays when the current parent is the root; it hands the
  node to \<open>add_node\<close> there and goes on from there with \<open>child_lvl\<close> as it was.
\<close>

lemma build_loop_lower_level:
  assumes "capa_level nd < child_lvl"
  shows "build_loop t (Some p) child_lvl (nd # nodes) =
           (case add_node t (Some (ascend p)) nd of
              Inl e \<Rightarrow> Inl e
            | Inr t1 \<Rightarrow> build_loop t1 (Some (ascend p)) child_lvl nodes)
       \<and> ascend p = (if p = [] then [] else butlast p)
       \<and> (\<not> startswith (text0 nd) ''description:'' \<and> \<not> startswith (text0 nd) ''- description:'' \<longrightarrow>
            add_node t (Some (ascend p)) nd = Inr (addChild t (ascend p) nd))
       \<and> (\<forall>c. subtree t (ascend p) = Some c \<longrightarrow>
            subtree (addChild t (ascend p) nd) (ascend p) =
              Some (QItem (item_node c) (item_children c @ [QItem nd []])))"
proof -
  have "build_loop t (Some p) child_lvl (nd # nodes) =
           (case add_node t (Some (ascend p)) nd of
              Inl e \<Rightarrow> Inl e
            | Inr t1 \<Rightarrow> build_loop t1 (Some (ascend p)) child_lvl nodes)"
    using assms by (simp add: Let_def)
  moreover have "ascend p = (if p = [] then [] else butlast p)"
    by (simp add: ascend_def parent_of_def)
  ultimately show ?thesis
    by (simp add: add_node_plain subtree_addChild)
qed

text \<open>
  C4. The builder does not ascend to the item under which the line belongs. In the first
  rule the line \<open>- api: b\<close> has the indentation of the children of the root and follows a
  line three levels deeper: it is attached one step up from the deepest parent, as the
  second child of the inner \<open>- or:\<close>, and written back four spaces too deep. In the second
  rule \<open>- api: b\<close> and \<open>- api: c\<close> are both one level below \<open>- api: a\<close>: the first is
  attached to the \<open>- and:\<close>, the second one step further up, to the root, and written back
  two spaces too shallow.
\<close>

theorem build_attaches_one_step_up:
  "load_features_from_yaml \<lparr>root = None, preview = []\<rparr> deep_rule_text False =
     Inr \<lparr>root = Some (QItem (mk_node ''- or:'' 0 0)
         [QItem (mk_node ''- and:'' 6 0)
            [QItem (mk_node ''- or:'' 8 0)
               [QItem (mk_node ''- and:'' 10 0) [QItem (mk_node ''- api: a'' 12 1) []],
                QItem (mk_node ''- api: b'' 6 1) []]]]), preview = []\<rparr>
   \<and> round_trip deep_rule_text =
     Inr (''  features:'' @ [NL]
       @ ''    - or:'' @ [NL]
       @ ''      - and:'' @ [NL]
       @ ''        - or:'' @ [NL]
       @ ''          - and:'' @ [NL]
       @ ''            - api: a'' @ [NL]
       @ ''          - api: b'' @ [NL])
   \<and> load_features_from_yaml \<lparr>root = None, preview = []\<rparr> siblings_rule_text False =
     Inr \<lparr>root = Some (QItem (mk_node ''- or:'' 0 0)
         [QItem (mk_node ''- and:'' 6 0)
            [QItem (mk_node ''- or:'' 8 0) [QItem (mk_node ''- api: a'' 10 1) []],
             QItem (mk_node ''- api: b'' 8 1) []],
          QItem (mk_node ''- api: c'' 8 1) []]), preview = []\<rparr>
   \<and> round_trip siblings_rule_text =
     Inr (''  features:'' @ [NL]
       @ ''    - or:'' @ [NL]
       @ ''      - and:'' @ [NL]
       @ ''        - or:'' @ [NL]
       @ ''          - api: a'' @ [NL]
       @ ''        - api: b'' @ [NL]
       @ ''      - api: c'' @ [NL])"
  by code_simp

text \<open>
  C10. A \<open>- description:\<close> line adds no child; when the next line is indented deeper,
  \<open>parent.child(parent.childCount() - 1)\<close> is \<open>child(-1)\<close>, which is \<open>None\<close>, and the
  recursive \<open>build\<close> raises on \<open>addChild\<close>.
\<close>

theorem load_features_from_yaml_raises:
  "load_features_from_yaml \<lparr>root = None, preview = []\<rparr> description_then_deeper_text False
     = Inl (AttributeError ''addChild'')"
  by code_simp

lemma yaml_to_nodes_loop_levels:
  "map capa_level (yaml_to_nodes_loop level lines) =
     map (\<lambda>line. calc_level_by_indent line level) lines"
  by (induction lines) (simp_all split: prod.splits)

lemma yaml_to_nodes_blank_level:
  "length (strip line) = 0 \<Longrightarrow> calc_level_by_indent line 0 = 0"
  by (simp add: calc_level_by_indent_def)

text \<open>
  C3. \<open>calc_level_by_indent\<close> returns the level it is given for a blank line, but
  \<open>yaml_to_nodes\<close> always gives it 0: the blank line after the comment of level 2 gets
  level 0.
\<close>

theorem yaml_to_nodes_blank_line:
  "map capa_level (yaml_to_nodes blank_line_text) = [0, 2, 0, 2]
   \<and> calc_level_by_indent [] 2 = 2"
  by code_simp

section \<open>Round trip\<close>

text \<open>
  C1. Loading a rule text and writing it again does not give the text back. In the first
  rule the description \<open>encrypt data\<close> comes back as \<open>ypt data\<close>: \<open>lstrip\<close> removes every
  leading character that occurs in \<open>- description:\<close>. In the second rule the last line,
  a child of the second \<open>- and:\<close>, comes back as its sibling: after the ascent the current
  level is still the deeper one.
\<close>

theorem round_trip_changes_rule:
  "round_trip described_rule_text =
     Inr (''rule:'' @ [NL] @ ''  meta:'' @ [NL] @ ''    name: t'' @ [NL] @ ''  features:'' @ [NL]
       @ ''    - and:'' @ [NL]
       @ ''      - description: ypt data'' @ [NL]
       @ ''      - api: CryptEncrypt'' @ [NL])
   \<and> round_trip nested_rule_text =
     Inr (''rule:'' @ [NL] @ ''  meta:'' @ [NL] @ ''    name: t'' @ [NL] @ ''  features:'' @ [NL]
       @ ''    - or:'' @ [NL]
       @ ''      - and:'' @ [NL]
       @ ''        - api: a'' @ [NL]
       @ ''      - and:'' @ [NL]
       @ ''      - api: b'' @ [NL])"
  by code_simp

end
